theory Spec2Isabelle
  imports Complex_Main "HOL-Library.AList"
begin

section \<open>Values shared by the modules\<close>

text \<open>
  A Python \<open>float\<close>. The handlers receive floats from outside (a JSON body or a query
  string), so besides the finite values the two infinities and NaN can arrive. A finite
  float is embedded as the real number it denotes; the handlers only compare floats
  with the integer literals 0, 20, 25, 50, 72, and such a comparison is exact.
\<close>

datatype pyfloat = Finite real | PosInf | NegInf | NaN

text \<open>IEEE comparison: every comparison with NaN is false.\<close>

fun fl_lt :: "pyfloat \<Rightarrow> pyfloat \<Rightarrow> bool" where
  "fl_lt (Finite x) (Finite y) = (x < y)"
| "fl_lt (Finite x) PosInf = True"
| "fl_lt NegInf (Finite y) = True"
| "fl_lt NegInf PosInf = True"
| "fl_lt _ _ = False"

definition fl_gt :: "pyfloat \<Rightarrow> pyfloat \<Rightarrow> bool" where
  "fl_gt a b = fl_lt b a"

fun fl_le :: "pyfloat \<Rightarrow> pyfloat \<Rightarrow> bool" where
  "fl_le NaN _ = False"
| "fl_le _ NaN = False"
| "fl_le (Finite x) (Finite y) = (x \<le> y)"
| "fl_le NegInf _ = True"
| "fl_le _ PosInf = True"
| "fl_le _ _ = False"

text \<open>
  The exceptions the modelled code can raise. \<open>HTTPException\<close> carries
  \<open>status_code\<close> and \<open>detail\<close>; the others are Python's built-in exceptions.
\<close>

datatype error =
    HTTPException nat string
  | KeyError string
  | IndexError
  | ValueError
  | TypeError
  | OverflowError

text \<open>Sequencing of computations that can raise: the first exception wins.\<close>

definition bind_err :: "error + 'a \<Rightarrow> ('a \<Rightarrow> error + 'b) \<Rightarrow> error + 'b" where
  "bind_err m f = (case m of Inl e \<Rightarrow> Inl e | Inr x \<Rightarrow> f x)"

text \<open>
  The values stored in the dictionaries and JSON objects of the program: strings, floats
  and integers.
\<close>

datatype pyval = PyStr string | PyFloat pyfloat | PyInt int

text \<open>
  A dictionary is an association list in insertion order, since the program reads the
  first key of one. \<open>d[k]\<close> raises \<open>KeyError\<close> for a missing key.
\<close>

definition dict_get :: "(string \<times> 'v) list \<Rightarrow> string \<Rightarrow> error + 'v" where
  "dict_get d k = (case map_of d k of None \<Rightarrow> Inl (KeyError k) | Some v \<Rightarrow> Inr v)"

definition dict_keys :: "(string \<times> 'v) list \<Rightarrow> string list" where
  "dict_keys d = map fst d"

section \<open>Garmin\_info.py: the recovery score API\<close>

record RecoveryScoreRequest =
  recovery_score :: pyfloat

record TrainingResponse =
  training_status :: string
  recovery_hours :: pyfloat
  message :: string

text \<open>The handler of \<open>POST /training-status\<close>.\<close>

definition get_training_status :: "RecoveryScoreRequest \<Rightarrow> error + TrainingResponse" where
  "get_training_status request =
     (if fl_lt (recovery_score request) (Finite 0) \<or> fl_gt (recovery_score request) (Finite 72)
      then Inl (HTTPException 400 ''Recovery score must be between 0 and 72 hours'')
      else
        (let (training_status, message) =
               (if fl_gt (recovery_score request) (Finite 20)
                then (''cancelled'', ''No training tomorrow, all training will be cancelled.'')
                else (''continue'', ''Training will continue as scheduled.''))
         in Inr \<lparr>training_status = training_status,
                  recovery_hours = recovery_score request,
                  message = message\<rparr>))"

text \<open>
  The handler of \<open>GET /training-status\<close>: it builds the request object from the query
  parameter and calls the POST handler.
\<close>

definition get_training_status_get :: "pyfloat \<Rightarrow> error + TrainingResponse" where
  "get_training_status_get rs =
     (let request = \<lparr>recovery_score = rs\<rparr> in get_training_status request)"

text \<open>
  The fields of a \<open>TrainingResponse\<close> object, as iterating over the object gives them:
  one pair per field of the class, with the name the class declares and the value the
  object holds, in the order of the declaration. This is the object that the handler
  returns, before the framework serialises it.
\<close>

definition TrainingResponse_fields :: "TrainingResponse \<Rightarrow> (string \<times> pyval) list" where
  "TrainingResponse_fields r =
     [(''training_status'', PyStr (training_status r)),
      (''recovery_hours'', PyFloat (recovery_hours r)),
      (''message'', PyStr (message r))]"

section \<open>Dates (Python's datetime module)\<close>

text \<open>
  A \<open>datetime.date\<close> is a year, a month and a day; dates compare lexicographically.
  The calendar is the proleptic Gregorian one, years 1 to 9999.
\<close>

datatype pydate = Date (year: nat) (month: nat) (day: nat)

definition is_leap :: "nat \<Rightarrow> bool" where
  "is_leap y = (y mod 4 = 0 \<and> (y mod 100 \<noteq> 0 \<or> y mod 400 = 0))"

definition days_in_month :: "nat \<Rightarrow> nat \<Rightarrow> nat" where
  "days_in_month y m =
     (if m = 2 then (if is_leap y then 29 else 28)
      else if m = 4 \<or> m = 6 \<or> m = 9 \<or> m = 11 then 30 else 31)"

definition date_le :: "pydate \<Rightarrow> pydate \<Rightarrow> bool" where
  "date_le a b =
     (year a < year b \<or> (year a = year b \<and>
       (month a < month b \<or> (month a = month b \<and> day a \<le> day b))))"

text \<open>
  \<open>d + timedelta(days=1)\<close>: the next day of the calendar; past 9999-12-31 the
  addition raises \<open>OverflowError\<close>.
\<close>

definition date_add_day :: "pydate \<Rightarrow> error + pydate" where
  "date_add_day d =
     (if day d < days_in_month (year d) (month d) then Inr (Date (year d) (month d) (day d + 1))
      else if month d < 12 then Inr (Date (year d) (month d + 1) 1)
      else if year d < 9999 then Inr (Date (year d + 1) 1 1)
      else Inl OverflowError)"

text \<open>Decimal digits, and numbers padded with zeros to two and to four digits.\<close>

definition digit_char :: "nat \<Rightarrow> char" where
  "digit_char n = ''0123456789'' ! (n mod 10)"

definition pad2 :: "nat \<Rightarrow> string" where
  "pad2 n = [digit_char (n div 10), digit_char n]"

definition pad4 :: "nat \<Rightarrow> string" where
  "pad4 n = [digit_char (n div 1000), digit_char (n div 100), digit_char (n div 10), digit_char n]"

definition digit_of :: "char \<Rightarrow> nat option" where
  "digit_of c =
     map_of [(CHR ''0'', 0), (CHR ''1'', 1), (CHR ''2'', 2), (CHR ''3'', 3), (CHR ''4'', 4),
             (CHR ''5'', 5), (CHR ''6'', 6), (CHR ''7'', 7), (CHR ''8'', 8), (CHR ''9'', 9)] c"

text \<open>The value of a string of decimal digits, \<open>None\<close> when a character is no digit.\<close>

fun number_of :: "nat \<Rightarrow> string \<Rightarrow> nat option" where
  "number_of acc [] = Some acc"
| "number_of acc (c # cs) =
     (case digit_of c of None \<Rightarrow> None | Some v \<Rightarrow> number_of (10 * acc + v) cs)"

fun split_on :: "char \<Rightarrow> string \<Rightarrow> string list" where
  "split_on c [] = [[]]"
| "split_on c (x # xs) =
     (if x = c then [] # split_on c xs
      else (case split_on c xs of [] \<Rightarrow> [[x]] | w # ws \<Rightarrow> (x # w) # ws))"

text \<open>
  \<open>strftime("%Y-%m-%d")\<close> and \<open>strftime("%B %d, %Y")\<close>. The month name of a month
  outside 1..12 does not arise for a date; it is rendered empty here.
\<close>

definition strftime_ymd :: "pydate \<Rightarrow> string" where
  "strftime_ymd d = pad4 (year d) @ ''-'' @ pad2 (month d) @ ''-'' @ pad2 (day d)"

definition month_name :: "nat \<Rightarrow> string" where
  "month_name m =
     (if 1 \<le> m \<and> m \<le> 12
      then [''January'', ''February'', ''March'', ''April'', ''May'', ''June'', ''July'',
            ''August'', ''September'', ''October'', ''November'', ''December''] ! (m - 1)
      else [])"

definition strftime_long :: "pydate \<Rightarrow> string" where
  "strftime_long d = month_name (month d) @ '' '' @ pad2 (day d) @ '', '' @ pad4 (year d)"

text \<open>
  \<open>datetime.strptime(s, "%Y-%m-%d")\<close> on a string of ASCII characters. The directive
  \<open>%Y\<close> takes exactly four digits, \<open>%m\<close> one or two digits with a value from 1 to 12,
  \<open>%d\<close> one or two digits with a value from 1 to 31 (or a space and a digit from 1 to
  9); nothing may follow. The date built from the three numbers must exist. Every
  failure is a \<open>ValueError\<close>.
\<close>

definition month_field :: "string \<Rightarrow> nat option" where
  "month_field s =
     (if length s = 1 \<or> length s = 2
      then (case number_of 0 s of
              None \<Rightarrow> None
            | Some m \<Rightarrow> if 1 \<le> m \<and> m \<le> 12 then Some m else None)
      else None)"

definition day_field :: "string \<Rightarrow> nat option" where
  "day_field s =
     (case s of
        [a, b] \<Rightarrow>
          (if a = CHR '' ''
           then (case digit_of b of
                   None \<Rightarrow> None
                 | Some v \<Rightarrow> if 1 \<le> v then Some v else None)
           else (case number_of 0 s of
                   None \<Rightarrow> None
                 | Some v \<Rightarrow> if 1 \<le> v \<and> v \<le> 31 then Some v else None))
      | [a] \<Rightarrow>
          (case digit_of a of
             None \<Rightarrow> None
           | Some v \<Rightarrow> if 1 \<le> v then Some v else None)
      | _ \<Rightarrow> None)"

definition year_field :: "string \<Rightarrow> nat option" where
  "year_field s = (if length s = 4 then number_of 0 s else None)"

definition strptime_ymd :: "string \<Rightarrow> error + pydate" where
  "strptime_ymd s =
     (case split_on CHR ''-'' s of
        [ys, ms, ds] \<Rightarrow>
          (case (year_field ys, month_field ms, day_field ds) of
             (Some y, Some m, Some d) \<Rightarrow>
               (if 1 \<le> y \<and> d \<le> days_in_month y m then Inr (Date y m d) else Inl ValueError)
           | _ \<Rightarrow> Inl ValueError)
      | _ \<Rightarrow> Inl ValueError)"

section \<open>front\_end\_data\_display/nice\_front\_end\_of\_data.py: the fitness data API\<close>

text \<open>
  The metrics of one day are a dictionary from metric name to value, and the fitness
  data a dictionary from date string to metrics.
\<close>

type_synonym metrics = "(string \<times> pyval) list"

type_synonym fitness_data = "(string \<times> metrics) list"

text \<open>
  The module's global \<open>SAMPLE_DATA\<close>. A float literal is embedded as the decimal
  number it is written as.
\<close>

definition SAMPLE_DATA :: fitness_data where
  "SAMPLE_DATA =
     [(''2023-01-01'', [(''recovery_score'', PyFloat (Finite (91 / 10))),
                        (''body_battery'', PyFloat (Finite (718 / 10))),
                        (''sleep_hours'', PyFloat (Finite (81 / 10))),
                        (''stress_level'', PyInt 26)]),
      (''2023-01-02'', [(''recovery_score'', PyFloat (Finite (287 / 10))),
                        (''body_battery'', PyFloat (Finite (754 / 10))),
                        (''sleep_hours'', PyFloat (Finite (77 / 10))),
                        (''stress_level'', PyInt 22)]),
      (''2023-01-03'', [(''recovery_score'', PyFloat (Finite (569 / 10))),
                        (''body_battery'', PyFloat (Finite (22 / 10))),
                        (''sleep_hours'', PyFloat (Finite (76 / 10))),
                        (''stress_level'', PyInt 31)]),
      (''2023-01-04'', [(''recovery_score'', PyFloat (Finite (151 / 10))),
                        (''body_battery'', PyFloat (Finite (524 / 10))),
                        (''sleep_hours'', PyFloat (Finite (37 / 10))),
                        (''stress_level'', PyInt 49)]),
      (''2023-01-05'', [(''recovery_score'', PyFloat (Finite (206 / 10))),
                        (''body_battery'', PyFloat (Finite (71 / 10))),
                        (''sleep_hours'', PyFloat (Finite (45 / 10))),
                        (''stress_level'', PyInt 13)]),
      (''2023-01-06'', [(''recovery_score'', PyFloat (Finite (53 / 10))),
                        (''body_battery'', PyFloat (Finite (122 / 10))),
                        (''sleep_hours'', PyFloat (Finite (54 / 10))),
                        (''stress_level'', PyInt 78)]),
      (''2023-01-07'', [(''recovery_score'', PyFloat (Finite (656 / 10))),
                        (''body_battery'', PyFloat (Finite (325 / 10))),
                        (''sleep_hours'', PyFloat (Finite (58 / 10))),
                        (''stress_level'', PyInt 70)])]"

text \<open>The dictionary \<open>{"date": ..., "data": ...}\<close> that the lookup returns.\<close>

record FitnessDataResponse =
  date :: string
  data :: metrics

text \<open>
  The handlers read the global \<open>SAMPLE_DATA\<close>. Each takes the global's value and
  returns, beside its outcome, the global's value after the call.

  The handler of \<open>GET /api/data/{date}\<close>.
\<close>

definition get_data_for_date ::
  "fitness_data \<Rightarrow> string \<Rightarrow> (error + FitnessDataResponse) \<times> fitness_data" where
  "get_data_for_date sample_data date' =
     (if date' \<notin> set (dict_keys sample_data)
      then (Inl (HTTPException 404 (''No data found for date '' @ date')), sample_data)
      else (bind_err (dict_get sample_data date') (\<lambda>v. Inr \<lparr>date = date', data = v\<rparr>),
            sample_data))"

text \<open>
  Comparison of a stored value with a numeric literal: an \<open>int\<close> and a \<open>float\<close>
  compare by value, a string with a number raises \<open>TypeError\<close>.
\<close>

definition num_of :: "pyval \<Rightarrow> error + pyfloat" where
  "num_of v =
     (case v of PyFloat f \<Rightarrow> Inr f | PyInt i \<Rightarrow> Inr (Finite (of_int i)) | PyStr s \<Rightarrow> Inl TypeError)"

definition py_gt :: "pyval \<Rightarrow> real \<Rightarrow> error + bool" where
  "py_gt v c = bind_err (num_of v) (\<lambda>f. Inr (fl_gt f (Finite c)))"

definition py_lt :: "pyval \<Rightarrow> real \<Rightarrow> error + bool" where
  "py_lt v c = bind_err (num_of v) (\<lambda>f. Inr (fl_lt f (Finite c)))"

text \<open>
  The conditional expression \<open>a if data[k] > hi else b if data[k] > lo else c\<close> of the
  page template, and the same with \<open><\<close>.
\<close>

definition grade_gt :: "metrics \<Rightarrow> string \<Rightarrow> real \<Rightarrow> real \<Rightarrow> string \<Rightarrow> string \<Rightarrow> string \<Rightarrow> error + string" where
  "grade_gt data' k hi lo a b c =
     bind_err (dict_get data' k) (\<lambda>v.
     bind_err (py_gt v hi) (\<lambda>g.
       if g then Inr a
       else bind_err (dict_get data' k) (\<lambda>w.
            bind_err (py_gt w lo) (\<lambda>m. Inr (if m then b else c)))))"

definition grade_lt :: "metrics \<Rightarrow> string \<Rightarrow> real \<Rightarrow> real \<Rightarrow> string \<Rightarrow> string \<Rightarrow> string \<Rightarrow> error + string" where
  "grade_lt data' k lo hi a b c =
     bind_err (dict_get data' k) (\<lambda>v.
     bind_err (py_lt v lo) (\<lambda>g.
       if g then Inr a
       else bind_err (dict_get data' k) (\<lambda>w.
            bind_err (py_lt w hi) (\<lambda>m. Inr (if m then b else c)))))"

text \<open>
  The page is an f-string: a fixed text with holes. The fixed text (markup and style
  sheet) does not depend on the request; the model keeps what is computed for the holes,
  in the order of the template: the displayed date, the entries of the date selector,
  and the four metric cards (class modifier, value shown, description).
\<close>

record date_option =
  option_value :: string
  option_selected :: string
  option_label :: string

record metric_card =
  card_class :: string
  card_value :: pyval
  card_desc :: string

record html_page =
  page_display_date :: string
  page_options :: "date_option list"
  page_recovery :: metric_card
  page_battery :: metric_card
  page_sleep :: metric_card
  page_stress :: metric_card

text \<open>The list comprehension over the keys of \<open>SAMPLE_DATA\<close> that builds the selector.\<close>

fun date_options :: "string \<Rightarrow> string list \<Rightarrow> error + date_option list" where
  "date_options date' [] = Inr []"
| "date_options date' (d # ds) =
     bind_err (strptime_ymd d) (\<lambda>t.
     bind_err (date_options date' ds) (\<lambda>rest.
       Inr (\<lparr>option_value = d,
             option_selected = (if d = date' then ''selected'' else []),
             option_label = strftime_long t\<rparr> # rest)))"

definition metric_card_gt ::
  "metrics \<Rightarrow> string \<Rightarrow> real \<Rightarrow> real \<Rightarrow> string \<Rightarrow> string \<Rightarrow> string \<Rightarrow> error + metric_card" where
  "metric_card_gt data' k hi lo a b c =
     bind_err (grade_gt data' k hi lo ''good'' ''medium'' []) (\<lambda>cls.
     bind_err (dict_get data' k) (\<lambda>v.
     bind_err (grade_gt data' k hi lo a b c) (\<lambda>desc.
       Inr \<lparr>card_class = cls, card_value = v, card_desc = desc\<rparr>)))"

definition metric_card_lt ::
  "metrics \<Rightarrow> string \<Rightarrow> real \<Rightarrow> real \<Rightarrow> string \<Rightarrow> string \<Rightarrow> string \<Rightarrow> error + metric_card" where
  "metric_card_lt data' k lo hi a b c =
     bind_err (grade_lt data' k lo hi ''good'' ''medium'' []) (\<lambda>cls.
     bind_err (dict_get data' k) (\<lambda>v.
     bind_err (grade_lt data' k lo hi a b c) (\<lambda>desc.
       Inr \<lparr>card_class = cls, card_value = v, card_desc = desc\<rparr>)))"

text \<open>
  The handler of \<open>GET /\<close>. Without a \<open>date\<close> query parameter the framework calls it with
  the default \<open>"2023-01-01"\<close>.
\<close>

definition render_page :: "fitness_data \<Rightarrow> string \<Rightarrow> error + html_page" where
  "render_page sample_data date' =
     bind_err (dict_get sample_data date') (\<lambda>data'.
     bind_err (strptime_ymd date') (\<lambda>t.
     bind_err (date_options date' (dict_keys sample_data)) (\<lambda>opts.
     bind_err (metric_card_gt data' ''recovery_score'' 50 25
                 ''Excellent recovery'' ''Average recovery'' ''Poor recovery'') (\<lambda>c1.
     bind_err (metric_card_gt data' ''body_battery'' 50 25
                 ''High energy levels'' ''Moderate energy'' ''Low energy levels'') (\<lambda>c2.
     bind_err (metric_card_gt data' ''sleep_hours'' 7 5
                 ''Well rested'' ''Adequate sleep'' ''Sleep deficit'') (\<lambda>c3.
     bind_err (metric_card_lt data' ''stress_level'' 30 60
                 ''Low stress'' ''Moderate stress'' ''High stress'') (\<lambda>c4.
       Inr \<lparr>page_display_date = strftime_long t, page_options = opts,
            page_recovery = c1, page_battery = c2, page_sleep = c3, page_stress = c4\<rparr>)))))))"

definition get_visualization ::
  "fitness_data \<Rightarrow> string \<Rightarrow> (error + html_page) \<times> fitness_data" where
  "get_visualization sample_data date' =
     (bind_err
        (if date' \<notin> set (dict_keys sample_data)
         then (case dict_keys sample_data of [] \<Rightarrow> Inl IndexError | k # ks \<Rightarrow> Inr k)
         else Inr date')
        (render_page sample_data),
      sample_data)"

section \<open>Garmin\_data/data\_creation/generate\_data.py: the data generator\<close>

text \<open>
  The generator draws from Python's \<open>random\<close> module. The module's generator core is
  taken as a parameter: a state \<open>'g\<close> with \<open>random\<close>, which returns a float in
  \<open>[0, 1)\<close>, and \<open>randbelow n\<close>, which returns an integer in \<open>[0, n)\<close>; each returns
  the next state as well. \<open>uniform\<close> and \<open>randint\<close> are the library's definitions over
  them.

  A float is the real number it denotes, and each float operation gives the exact
  result rounded to a float. The rounding \<open>rd\<close> is a parameter as well; what is known
  of it is that it is monotone and leaves the numbers that are floats as they are.
  \<open>uniform(a, b)\<close> is \<open>a + (b - a) * random()\<close>: a difference, a product and a
  sum, each rounded.
\<close>

definition uniform ::
  "(real \<Rightarrow> real) \<Rightarrow> ('g \<Rightarrow> real \<times> 'g) \<Rightarrow> real \<Rightarrow> real \<Rightarrow> 'g \<Rightarrow> real \<times> 'g" where
  "uniform rd random a b g = (let (u, g') = random g in (rd (a + rd (rd (b - a) * u)), g'))"

definition randint :: "(nat \<Rightarrow> 'g \<Rightarrow> nat \<times> 'g) \<Rightarrow> int \<Rightarrow> int \<Rightarrow> 'g \<Rightarrow> int \<times> 'g" where
  "randint randbelow a b g = (let (k, g') = randbelow (nat (b - a + 1)) g in (a + int k, g'))"

text \<open>
  \<open>round(x, 1)\<close>: the multiple of one tenth nearest to the value of \<open>x\<close>, a tie going
  to the even one, and of that decimal number the float.
\<close>

definition round1 :: "(real \<Rightarrow> real) \<Rightarrow> real \<Rightarrow> real" where
  "round1 rd x =
     (let y = x * 10; f = \<lfloor>y\<rfloor>; r = y - of_int f
      in rd (of_int (if r < 1 / 2 then f else if 1 / 2 < r then f + 1
                     else if even f then f else f + 1) / 10))"

text \<open>
  The \<open>while\<close> loop of \<open>generate_five_days_of_garmin_data\<close>, from the state it has
  when the condition is tested: the current day, the end date, the dictionary built so
  far and the generator state.
\<close>

function generate_loop ::
  "(real \<Rightarrow> real) \<Rightarrow> ('g \<Rightarrow> real \<times> 'g) \<Rightarrow> (nat \<Rightarrow> 'g \<Rightarrow> nat \<times> 'g) \<Rightarrow> pydate \<Rightarrow> pydate
     \<Rightarrow> fitness_data \<Rightarrow> 'g \<Rightarrow> (error + fitness_data) \<times> 'g" where
  "generate_loop rd random randbelow current_day end_date data_dict g =
     (if date_le current_day end_date
      then
        (let (u1, g1) = uniform rd random 0 72 g;
             recovery_score = round1 rd u1;
             (u2, g2) = uniform rd random 0 100 g1;
             body_battery = round1 rd u2;
             (u3, g3) = uniform rd random 3 9 g2;
             sleep_hours = round1 rd u3;
             (stress_level, g4) = randint randbelow 0 100 g3;
             date_str = strftime_ymd current_day;
             data_dict' = AList.update date_str
                            [(''recovery_score'', PyFloat (Finite recovery_score)),
                             (''body_battery'', PyFloat (Finite body_battery)),
                             (''sleep_hours'', PyFloat (Finite sleep_hours)),
                             (''stress_level'', PyInt stress_level)]
                            data_dict
         in (case date_add_day current_day of
               Inl e \<Rightarrow> (Inl e, g4)
             | Inr next_day \<Rightarrow>
                 generate_loop rd random randbelow next_day end_date data_dict' g4))
      else (Inr data_dict, g))"
  by pat_completeness auto
termination
proof (relation "measures [\<lambda>(f, r, b, c, e, d, g). Suc (year e) - year c,
                           \<lambda>(f, r, b, c, e, d, g). 12 - month c,
                           \<lambda>(f, r, b, c, e, d, g). 31 - day c]")
  show "wf (measures [\<lambda>(f, r, b, c, e, d, g). Suc (year e) - year c,
                      \<lambda>(f, r, b, c, e, d, g). 12 - month c,
                      \<lambda>(f, r, b, c, e, d, g). 31 - day c])"
    by simp
next
  fix rd :: "real \<Rightarrow> real"
    and random :: "'g \<Rightarrow> real \<times> 'g" and randbelow :: "nat \<Rightarrow> 'g \<Rightarrow> nat \<times> 'g"
    and current_day end_date next_day :: pydate and data_dict data_dict' :: fitness_data
    and g g4 :: 'g
  assume le: "date_le current_day end_date"
    and nxt: "date_add_day current_day = Inr next_day"
  have dim: "days_in_month (year current_day) (month current_day) \<le> 31"
    by (simp add: days_in_month_def)
  from le have yle: "year current_day \<le> year end_date"
    by (auto simp: date_le_def)
  from nxt dim yle
  show "((rd, random, randbelow, next_day, end_date, data_dict', g4),
         (rd, random, randbelow, current_day, end_date, data_dict, g))
        \<in> measures [\<lambda>(f, r, b, c, e, d, g). Suc (year e) - year c,
                    \<lambda>(f, r, b, c, e, d, g). 12 - month c,
                    \<lambda>(f, r, b, c, e, d, g). 31 - day c]"
    by (auto simp: date_add_day_def split: if_splits)
qed

declare generate_loop.simps [simp del]

definition generate_five_days_of_garmin_data ::
  "(real \<Rightarrow> real) \<Rightarrow> ('g \<Rightarrow> real \<times> 'g) \<Rightarrow> (nat \<Rightarrow> 'g \<Rightarrow> nat \<times> 'g) \<Rightarrow> 'g
     \<Rightarrow> (error + fitness_data) \<times> 'g" where
  "generate_five_days_of_garmin_data rd random randbelow g =
     (let start_date = Date 2023 1 1;
          end_date = Date 2023 3 1;
          current_day = start_date;
          data_dict = []
      in generate_loop rd random randbelow current_day end_date data_dict g)"

section \<open>Properties of the recovery score API\<close>

text \<open>
  Claim C1. For a recovery score \<open>s\<close> in the valid range \<open>[0, 72]\<close> the handler returns
  a response, whose status is \<open>cancelled\<close> exactly when \<open>s > 20\<close> and \<open>continue\<close>
  exactly when \<open>0 \<le> s \<le> 20\<close>. The witness is the boundary value 20, which classifies
  as \<open>continue\<close>.
\<close>

theorem training_status_threshold:
  assumes "fl_le (Finite 0) s" and "fl_le s (Finite 72)"
  shows "\<exists>r. get_training_status \<lparr>recovery_score = s\<rparr> = Inr r
           \<and> (training_status r = ''cancelled'' \<longleftrightarrow> fl_gt s (Finite 20))
           \<and> (training_status r = ''continue''
                \<longleftrightarrow> fl_le (Finite 0) s \<and> fl_le s (Finite 20))"
  using assms by (cases s) (auto simp: get_training_status_def fl_gt_def)

theorem training_status_threshold_witness:
  "fl_le (Finite 0) (Finite 20) \<and> fl_le (Finite 20) (Finite 72)
   \<and> \<not> fl_gt (Finite 20) (Finite 20)
   \<and> (\<exists>r. get_training_status \<lparr>recovery_score = Finite 20\<rparr> = Inr r
          \<and> training_status r = ''continue'' \<and> training_status r \<noteq> ''cancelled'')"
  using training_status_threshold [of "Finite 20"]
  by (auto simp: fl_gt_def)

text \<open>
  Claim C2. For every recovery score \<open>s\<close>, NaN and the infinities included, the handler
  raises exactly when \<open>s < 0\<close> or \<open>s > 72\<close>; what it raises is the HTTP 400 exception,
  and then there is no response. For \<open>s\<close> in \<open>[0, 72]\<close> it returns a response.
\<close>

theorem invalid_range_iff:
  "(get_training_status \<lparr>recovery_score = s\<rparr>
      = Inl (HTTPException 400 ''Recovery score must be between 0 and 72 hours'')
     \<longleftrightarrow> fl_lt s (Finite 0) \<or> fl_gt s (Finite 72))
   \<and> ((\<exists>e. get_training_status \<lparr>recovery_score = s\<rparr> = Inl e)
     \<longleftrightarrow> fl_lt s (Finite 0) \<or> fl_gt s (Finite 72))
   \<and> (fl_lt s (Finite 0) \<or> fl_gt s (Finite 72)
     \<longrightarrow> (\<forall>r. get_training_status \<lparr>recovery_score = s\<rparr> \<noteq> Inr r))
   \<and> (fl_le (Finite 0) s \<and> fl_le s (Finite 72)
     \<longrightarrow> (\<exists>r. get_training_status \<lparr>recovery_score = s\<rparr> = Inr r))"
  by (cases s) (auto simp: get_training_status_def fl_gt_def split: prod.splits)

theorem invalid_range_iff_witness:
  "fl_lt (Finite (- 1 / 10)) (Finite 0)
   \<and> get_training_status \<lparr>recovery_score = Finite (- 1 / 10)\<rparr>
       = Inl (HTTPException 400 ''Recovery score must be between 0 and 72 hours'')
   \<and> fl_gt (Finite (721 / 10)) (Finite 72)
   \<and> get_training_status \<lparr>recovery_score = Finite (721 / 10)\<rparr>
       = Inl (HTTPException 400 ''Recovery score must be between 0 and 72 hours'')
   \<and> fl_le (Finite 0) (Finite 72) \<and> fl_le (Finite 72) (Finite 72)
   \<and> (\<exists>r. get_training_status \<lparr>recovery_score = Finite 72\<rparr> = Inr r)"
  using invalid_range_iff [of "Finite (- 1 / 10)"] invalid_range_iff [of "Finite (721 / 10)"]
    invalid_range_iff [of "Finite 72"]
  by (simp add: fl_gt_def)

text \<open>
  Claim C3. For a recovery score \<open>s\<close> in \<open>[0, 72]\<close> the field \<open>recovery_hours\<close> of the
  response is \<open>s\<close>.
\<close>

theorem recovery_hours_echo:
  assumes "fl_le (Finite 0) s" and "fl_le s (Finite 72)"
  shows "\<exists>r. get_training_status \<lparr>recovery_score = s\<rparr> = Inr r \<and> recovery_hours r = s"
  using assms by (cases s) (auto simp: get_training_status_def fl_gt_def)

theorem recovery_hours_echo_witness:
  "fl_le (Finite 0) (Finite (365 / 10)) \<and> fl_le (Finite (365 / 10)) (Finite 72)
   \<and> (\<exists>r. get_training_status \<lparr>recovery_score = Finite (365 / 10)\<rparr> = Inr r
          \<and> recovery_hours r = Finite (365 / 10))"
  using recovery_hours_echo [of "Finite (365 / 10)"]
  by simp

text \<open>
  Claim C4. For every recovery score \<open>s\<close> the GET handler called with the query parameter
  \<open>s\<close> has the outcome of the POST handler called with a body whose \<open>recovery_score\<close>
  is \<open>s\<close>: the same response or the same exception.
\<close>

theorem get_equals_post:
  "get_training_status_get s = get_training_status \<lparr>recovery_score = s\<rparr>"
  by (simp add: get_training_status_get_def)

text \<open>
  Claim C5. For a recovery score \<open>s\<close> in \<open>[0, 72]\<close> the message of the response is
  the cancellation text when \<open>s > 20\<close> and the continuation text when \<open>0 \<le> s \<le> 20\<close>.
\<close>

theorem training_message:
  assumes "fl_le (Finite 0) s" and "fl_le s (Finite 72)"
  shows "\<exists>r. get_training_status \<lparr>recovery_score = s\<rparr> = Inr r
           \<and> (fl_gt s (Finite 20)
                \<longrightarrow> message r = ''No training tomorrow, all training will be cancelled.'')
           \<and> (fl_le (Finite 0) s \<and> fl_le s (Finite 20)
                \<longrightarrow> message r = ''Training will continue as scheduled.'')"
  using assms by (cases s) (auto simp: get_training_status_def fl_gt_def)

theorem training_message_witness:
  "fl_le (Finite 0) (Finite (2001 / 100)) \<and> fl_le (Finite (2001 / 100)) (Finite 72)
   \<and> fl_gt (Finite (2001 / 100)) (Finite 20)
   \<and> (\<exists>r. get_training_status \<lparr>recovery_score = Finite (2001 / 100)\<rparr> = Inr r
          \<and> message r = ''No training tomorrow, all training will be cancelled.'')
   \<and> fl_le (Finite 0) (Finite 0) \<and> fl_le (Finite 0) (Finite 20)
   \<and> (\<exists>r. get_training_status \<lparr>recovery_score = Finite 0\<rparr> = Inr r
          \<and> message r = ''Training will continue as scheduled.'')"
  using training_message [of "Finite (2001 / 100)"] training_message [of "Finite 0"]
  by (simp add: fl_gt_def)

text \<open>
  Claim C6, as stated: the returned object has exactly the three fields \<open>status\<close>,
  \<open>recovery_hours\<close> and \<open>message\<close>. It fails on the name of the first field: the response
  to the score 10 has no field \<open>status\<close>.
\<close>

theorem response_fields_counterexample:
  "get_training_status \<lparr>recovery_score = Finite 10\<rparr>
     = Inr \<lparr>training_status = ''continue'', recovery_hours = Finite 10,
            message = ''Training will continue as scheduled.''\<rparr>
   \<and> map fst (TrainingResponse_fields
                 \<lparr>training_status = ''continue'', recovery_hours = Finite 10,
                  message = ''Training will continue as scheduled.''\<rparr>)
       \<noteq> [''status'', ''recovery_hours'', ''message'']
   \<and> ''status'' \<notin> set (map fst (TrainingResponse_fields
                 \<lparr>training_status = ''continue'', recovery_hours = Finite 10,
                  message = ''Training will continue as scheduled.''\<rparr>))"
  by (simp add: get_training_status_def fl_gt_def TrainingResponse_fields_def)

text \<open>
  Claim C6, amended: the object returned for a request has exactly the three fields
  \<open>training_status\<close>, \<open>recovery_hours\<close> and \<open>message\<close>, in this order;
  \<open>training_status\<close> is a string, which is \<open>continue\<close> or \<open>cancelled\<close>,
  \<open>recovery_hours\<close> is the float of the request and \<open>message\<close> is a string.
\<close>

theorem response_fields:
  assumes "get_training_status \<lparr>recovery_score = s\<rparr> = Inr r"
  shows "\<exists>st m. TrainingResponse_fields r
           = [(''training_status'', PyStr st), (''recovery_hours'', PyFloat s),
              (''message'', PyStr m)]
         \<and> (st = ''continue'' \<or> st = ''cancelled'')"
  using assms
  by (auto simp: get_training_status_def TrainingResponse_fields_def split: if_splits)

theorem response_fields_witness:
  "get_training_status \<lparr>recovery_score = Finite 45\<rparr>
     = Inr \<lparr>training_status = ''cancelled'', recovery_hours = Finite 45,
            message = ''No training tomorrow, all training will be cancelled.''\<rparr>
   \<and> (\<exists>st m. TrainingResponse_fields
                \<lparr>training_status = ''cancelled'', recovery_hours = Finite 45,
                 message = ''No training tomorrow, all training will be cancelled.''\<rparr>
           = [(''training_status'', PyStr st), (''recovery_hours'', PyFloat (Finite 45)),
              (''message'', PyStr m)]
         \<and> (st = ''continue'' \<or> st = ''cancelled''))"
proof -
  have h: "get_training_status \<lparr>recovery_score = Finite 45\<rparr>
     = Inr \<lparr>training_status = ''cancelled'', recovery_hours = Finite 45,
            message = ''No training tomorrow, all training will be cancelled.''\<rparr>"
    by (simp add: get_training_status_def fl_gt_def)
  from response_fields [OF h] h show ?thesis by simp
qed

section \<open>Properties of the fitness data API\<close>

lemma get_data_for_date_cases:
  "get_data_for_date sd d =
     (case map_of sd d of
        None \<Rightarrow> (Inl (HTTPException 404 (''No data found for date '' @ d)), sd)
      | Some m \<Rightarrow> (Inr \<lparr>date = d, data = m\<rparr>, sd))"
proof (cases "map_of sd d")
  case None
  then have "d \<notin> set (dict_keys sd)"
    by (simp add: dict_keys_def map_of_eq_None_iff)
  with None show ?thesis
    by (simp add: get_data_for_date_def)
next
  case (Some m)
  then have "d \<in> set (dict_keys sd)"
    by (auto simp: dict_keys_def dest: map_of_SomeD intro: rev_image_eqI)
  with Some show ?thesis
    by (simp add: get_data_for_date_def dict_get_def bind_err_def)
qed

text \<open>
  Claim C8. For every date string \<open>d\<close>, the lookup handler run on \<open>SAMPLE_DATA\<close> raises
  exactly when \<open>d\<close> is not a key of \<open>SAMPLE_DATA\<close>, and what it raises is the HTTP 404
  exception; when \<open>d\<close> is a key it returns the date with the metrics stored under it;
  in both cases \<open>SAMPLE_DATA\<close> is the same after the call.
\<close>

theorem get_data_for_date_lookup:
  "snd (get_data_for_date SAMPLE_DATA d) = SAMPLE_DATA
   \<and> ((\<exists>e. fst (get_data_for_date SAMPLE_DATA d) = Inl e)
        \<longleftrightarrow> d \<notin> set (dict_keys SAMPLE_DATA))
   \<and> (d \<notin> set (dict_keys SAMPLE_DATA)
        \<longrightarrow> fst (get_data_for_date SAMPLE_DATA d)
              = Inl (HTTPException 404 (''No data found for date '' @ d)))
   \<and> (d \<in> set (dict_keys SAMPLE_DATA)
        \<longrightarrow> (\<exists>m. map_of SAMPLE_DATA d = Some m
                  \<and> fst (get_data_for_date SAMPLE_DATA d) = Inr \<lparr>date = d, data = m\<rparr>))"
proof (cases "map_of SAMPLE_DATA d")
  case None
  then have "d \<notin> set (dict_keys SAMPLE_DATA)"
    by (simp add: dict_keys_def map_of_eq_None_iff)
  with None show ?thesis
    by (simp add: get_data_for_date_cases)
next
  case (Some m)
  then have "d \<in> set (dict_keys SAMPLE_DATA)"
    by (auto simp: dict_keys_def dest: map_of_SomeD intro: rev_image_eqI)
  with Some show ?thesis
    by (simp add: get_data_for_date_cases)
qed

theorem get_data_for_date_lookup_witness:
  "''2023-01-04'' \<in> set (dict_keys SAMPLE_DATA)
   \<and> get_data_for_date SAMPLE_DATA ''2023-01-04''
       = (Inr \<lparr>date = ''2023-01-04'',
               data = [(''recovery_score'', PyFloat (Finite (151 / 10))),
                       (''body_battery'', PyFloat (Finite (524 / 10))),
                       (''sleep_hours'', PyFloat (Finite (37 / 10))),
                       (''stress_level'', PyInt 49)]\<rparr>, SAMPLE_DATA)
   \<and> ''2023-01-08'' \<notin> set (dict_keys SAMPLE_DATA)
   \<and> get_data_for_date SAMPLE_DATA ''2023-01-08''
       = (Inl (HTTPException 404 ''No data found for date 2023-01-08''), SAMPLE_DATA)"
proof -
  have k1: "''2023-01-04'' \<in> set (dict_keys SAMPLE_DATA)"
    by (simp add: SAMPLE_DATA_def dict_keys_def)
  have k2: "''2023-01-08'' \<notin> set (dict_keys SAMPLE_DATA)"
    by (simp add: SAMPLE_DATA_def dict_keys_def)
  have m1: "map_of SAMPLE_DATA ''2023-01-04''
              = Some [(''recovery_score'', PyFloat (Finite (151 / 10))),
                      (''body_battery'', PyFloat (Finite (524 / 10))),
                      (''sleep_hours'', PyFloat (Finite (37 / 10))),
                      (''stress_level'', PyInt 49)]"
    by (simp add: SAMPLE_DATA_def)
  from get_data_for_date_lookup [of "''2023-01-04''"] get_data_for_date_lookup [of "''2023-01-08''"]
    k1 k2 m1
  show ?thesis
    by (auto simp: prod_eq_iff)
qed

lemmas date_format_defs = strptime_ymd_def year_field_def month_field_def day_field_def
  digit_of_def days_in_month_def is_leap_def strftime_long_def month_name_def pad2_def pad4_def
  digit_char_def

lemmas card_defs = metric_card_gt_def metric_card_lt_def grade_gt_def grade_lt_def py_gt_def
  py_lt_def num_of_def fl_gt_def dict_get_def bind_err_def

lemma SAMPLE_DATA_keys:
  "dict_keys SAMPLE_DATA
     = [''2023-01-01'', ''2023-01-02'', ''2023-01-03'', ''2023-01-04'', ''2023-01-05'',
        ''2023-01-06'', ''2023-01-07'']"
  by (simp add: SAMPLE_DATA_def dict_keys_def)

text \<open>The date selector: every key of \<open>SAMPLE_DATA\<close> parses.\<close>

lemma SAMPLE_DATA_options:
  "date_options k (dict_keys SAMPLE_DATA) = Inr
     [\<lparr>option_value = ''2023-01-01'',
       option_selected = (if ''2023-01-01'' = k then ''selected'' else []),
       option_label = ''January 01, 2023''\<rparr>,
      \<lparr>option_value = ''2023-01-02'',
       option_selected = (if ''2023-01-02'' = k then ''selected'' else []),
       option_label = ''January 02, 2023''\<rparr>,
      \<lparr>option_value = ''2023-01-03'',
       option_selected = (if ''2023-01-03'' = k then ''selected'' else []),
       option_label = ''January 03, 2023''\<rparr>,
      \<lparr>option_value = ''2023-01-04'',
       option_selected = (if ''2023-01-04'' = k then ''selected'' else []),
       option_label = ''January 04, 2023''\<rparr>,
      \<lparr>option_value = ''2023-01-05'',
       option_selected = (if ''2023-01-05'' = k then ''selected'' else []),
       option_label = ''January 05, 2023''\<rparr>,
      \<lparr>option_value = ''2023-01-06'',
       option_selected = (if ''2023-01-06'' = k then ''selected'' else []),
       option_label = ''January 06, 2023''\<rparr>,
      \<lparr>option_value = ''2023-01-07'',
       option_selected = (if ''2023-01-07'' = k then ''selected'' else []),
       option_label = ''January 07, 2023''\<rparr>]"
  unfolding SAMPLE_DATA_keys by (simp add: date_format_defs bind_err_def)

lemma render_page_first:
  "render_page SAMPLE_DATA ''2023-01-01'' = Inr
     \<lparr>page_display_date = ''January 01, 2023'',
      page_options =
        [\<lparr>option_value = ''2023-01-01'', option_selected = ''selected'',
          option_label = ''January 01, 2023''\<rparr>,
         \<lparr>option_value = ''2023-01-02'', option_selected = [],
          option_label = ''January 02, 2023''\<rparr>,
         \<lparr>option_value = ''2023-01-03'', option_selected = [],
          option_label = ''January 03, 2023''\<rparr>,
         \<lparr>option_value = ''2023-01-04'', option_selected = [],
          option_label = ''January 04, 2023''\<rparr>,
         \<lparr>option_value = ''2023-01-05'', option_selected = [],
          option_label = ''January 05, 2023''\<rparr>,
         \<lparr>option_value = ''2023-01-06'', option_selected = [],
          option_label = ''January 06, 2023''\<rparr>,
         \<lparr>option_value = ''2023-01-07'', option_selected = [],
          option_label = ''January 07, 2023''\<rparr>],
      page_recovery = \<lparr>card_class = [], card_value = PyFloat (Finite (91 / 10)),
                       card_desc = ''Poor recovery''\<rparr>,
      page_battery = \<lparr>card_class = ''good'', card_value = PyFloat (Finite (718 / 10)),
                      card_desc = ''High energy levels''\<rparr>,
      page_sleep = \<lparr>card_class = ''good'', card_value = PyFloat (Finite (81 / 10)),
                    card_desc = ''Well rested''\<rparr>,
      page_stress = \<lparr>card_class = ''good'', card_value = PyInt 26,
                     card_desc = ''Low stress''\<rparr>\<rparr>"
  unfolding render_page_def SAMPLE_DATA_options
  by (simp add: SAMPLE_DATA_def date_format_defs card_defs)

lemma render_page_keys:
  "k \<in> set (dict_keys SAMPLE_DATA) \<Longrightarrow> \<exists>p. render_page SAMPLE_DATA k = Inr p"
  unfolding render_page_def SAMPLE_DATA_options SAMPLE_DATA_keys
  by (auto simp add: SAMPLE_DATA_def date_format_defs card_defs)

lemma get_visualization_fallback:
  "d \<notin> set (dict_keys SAMPLE_DATA)
   \<Longrightarrow> get_visualization SAMPLE_DATA d = (render_page SAMPLE_DATA ''2023-01-01'', SAMPLE_DATA)"
  by (simp add: get_visualization_def bind_err_def) (simp add: SAMPLE_DATA_keys)

text \<open>
  Claim C9. The page handler run on \<open>SAMPLE_DATA\<close> returns a page for every date string,
  whether it parses as a date or not, and leaves \<open>SAMPLE_DATA\<close> as it is. For a date
  that is not a key of \<open>SAMPLE_DATA\<close> the page is the one of the first key,
  \<open>2023-01-01\<close>, with that day's metrics.
\<close>

theorem get_visualization_never_fails:
  "(\<exists>page. get_visualization SAMPLE_DATA d = (Inr page, SAMPLE_DATA))
   \<and> (d \<notin> set (dict_keys SAMPLE_DATA)
        \<longrightarrow> hd (dict_keys SAMPLE_DATA) = ''2023-01-01''
            \<and> get_visualization SAMPLE_DATA d = get_visualization SAMPLE_DATA ''2023-01-01''
            \<and> (\<exists>page. get_visualization SAMPLE_DATA d = (Inr page, SAMPLE_DATA)
                  \<and> page_display_date page = ''January 01, 2023''
                  \<and> card_value (page_recovery page) = PyFloat (Finite (91 / 10))
                  \<and> card_value (page_battery page) = PyFloat (Finite (718 / 10))
                  \<and> card_value (page_sleep page) = PyFloat (Finite (81 / 10))
                  \<and> card_value (page_stress page) = PyInt 26))"
proof (cases "d \<in> set (dict_keys SAMPLE_DATA)")
  case True
  from render_page_keys [OF True] obtain p where "render_page SAMPLE_DATA d = Inr p" ..
  with True show ?thesis
    by (simp add: get_visualization_def bind_err_def)
next
  case False
  have first: "''2023-01-01'' \<in> set (dict_keys SAMPLE_DATA)"
    by (simp add: SAMPLE_DATA_keys)
  have same: "get_visualization SAMPLE_DATA ''2023-01-01''
                = (render_page SAMPLE_DATA ''2023-01-01'', SAMPLE_DATA)"
    using first by (simp add: get_visualization_def bind_err_def)
  have hd: "hd (dict_keys SAMPLE_DATA) = ''2023-01-01''"
    by (simp add: SAMPLE_DATA_keys)
  from False hd same show ?thesis
    by (simp add: get_visualization_fallback render_page_first)
qed

theorem get_visualization_never_fails_witness:
  "''1999-12-31'' \<notin> set (dict_keys SAMPLE_DATA)
   \<and> strptime_ymd ''1999-12-31'' = Inr (Date 1999 12 31)
   \<and> get_visualization SAMPLE_DATA ''1999-12-31'' = get_visualization SAMPLE_DATA ''2023-01-01''
   \<and> ''yesterday'' \<notin> set (dict_keys SAMPLE_DATA)
   \<and> strptime_ymd ''yesterday'' = Inl ValueError
   \<and> (\<exists>page. get_visualization SAMPLE_DATA ''yesterday'' = (Inr page, SAMPLE_DATA)
          \<and> page_display_date page = ''January 01, 2023'')"
proof -
  have k1: "''1999-12-31'' \<notin> set (dict_keys SAMPLE_DATA)"
    by (simp add: SAMPLE_DATA_keys)
  have k2: "''yesterday'' \<notin> set (dict_keys SAMPLE_DATA)"
    by (simp add: SAMPLE_DATA_keys)
  have p1: "strptime_ymd ''1999-12-31'' = Inr (Date 1999 12 31)"
    by (simp add: date_format_defs)
  have p2: "strptime_ymd ''yesterday'' = Inl ValueError"
    by (simp add: date_format_defs)
  from get_visualization_never_fails [of "''1999-12-31''"]
    get_visualization_never_fails [of "''yesterday''"] k1 k2 p1 p2
  show ?thesis
    by blast
qed

section \<open>Properties of the data generator\<close>

lemma round1_bounds:
  assumes mono: "\<And>x y. x \<le> y \<Longrightarrow> rd x \<le> rd y"
    and "of_int lo \<le> x * 10" and "x * 10 \<le> of_int hi"
  shows "rd (of_int lo / 10) \<le> round1 rd x \<and> round1 rd x \<le> rd (of_int hi / 10)"
proof -
  define f where "f = \<lfloor>x * 10\<rfloor>"
  define k where "k = (if x * 10 - of_int f < 1 / 2 then f else if 1 / 2 < x * 10 - of_int f
                       then f + 1 else if even f then f else f + 1)"
  have lf: "lo \<le> f" using assms(2) unfolding f_def by (simp add: le_floor_iff)
  have fh: "f \<le> hi" using assms(3) unfolding f_def by (simp add: floor_le_iff)
  have up: "x * 10 - of_int f \<noteq> 0 \<Longrightarrow> f + 1 \<le> hi"
  proof -
    assume "x * 10 - of_int f \<noteq> 0"
    then have "of_int f < x * 10" unfolding f_def
      by (metis eq_iff_diff_eq_0 of_int_floor_le order_le_less)
    with assms(3) have "(of_int f :: real) < of_int hi" by linarith
    then show ?thesis by simp
  qed
  have "lo \<le> k" using lf unfolding k_def by auto
  then have lower: "(of_int lo :: real) / 10 \<le> of_int k / 10"
    by (simp add: divide_le_cancel)
  have "k \<le> hi" using fh up unfolding k_def by auto
  then have upper: "(of_int k :: real) / 10 \<le> of_int hi / 10"
    by (simp add: divide_le_cancel)
  have "round1 rd x = rd (of_int k / 10)"
    unfolding round1_def Let_def f_def [symmetric] k_def ..
  with mono [OF lower] mono [OF upper] show ?thesis by simp
qed

lemma uniform_bounds:
  assumes mono: "\<And>x y. x \<le> y \<Longrightarrow> rd x \<le> rd y"
    and fx: "rd 0 = 0" "rd (b - a) = b - a" "rd a = a" "rd b = b"
    and "0 \<le> fst (random g)" and "fst (random g) < 1" and "a \<le> b"
  shows "a \<le> fst (uniform rd random a b g) \<and> fst (uniform rd random a b g) \<le> b"
proof -
  obtain u g' where r: "random g = (u, g')" by (cases "random g")
  with assms have u: "0 \<le> u" "u < 1" by simp_all
  have "0 \<le> (b - a) * u" using u assms(8) by simp
  then have p0: "0 \<le> rd ((b - a) * u)" using mono [of 0 "(b - a) * u"] fx(1) by simp
  have "(b - a) * u \<le> (b - a) * 1"
    using u assms(8) by (intro mult_left_mono) simp_all
  then have p1: "rd ((b - a) * u) \<le> b - a" using mono [of "(b - a) * u" "b - a"] fx(2) by simp
  have "a \<le> rd (a + rd ((b - a) * u))"
    using mono [of a "a + rd ((b - a) * u)"] p0 fx(3) by simp
  moreover have "rd (a + rd ((b - a) * u)) \<le> b"
    using mono [of "a + rd ((b - a) * u)" b] p1 fx(4) by simp
  ultimately show ?thesis using r fx(2) by (simp add: uniform_def)
qed

lemma randint_bounds:
  assumes "\<And>n g. 0 < n \<Longrightarrow> fst (randbelow n g) < n" and "a \<le> b"
  shows "a \<le> fst (randint randbelow a b g) \<and> fst (randint randbelow a b g) \<le> b"
proof -
  obtain k g' where r: "randbelow (nat (b - a + 1)) g = (k, g')"
    by (cases "randbelow (nat (b - a + 1)) g")
  have "fst (randbelow (nat (b - a + 1)) g) < nat (b - a + 1)"
    using assms by simp
  with r have "k < nat (b - a + 1)" by simp
  then show ?thesis using r assms(2) by (simp add: randint_def)
qed

text \<open>One round of the loop, and its exit.\<close>

lemma generate_loop_run:
  assumes "date_le c e"
    and "uniform rd R 0 72 g = (u1, g1)" and "uniform rd R 0 100 g1 = (u2, g2)"
    and "uniform rd R 3 9 g2 = (u3, g3)" and "randint B 0 100 g3 = (sl, g4)"
  shows "generate_loop rd R B c e dd g =
           (case date_add_day c of
              Inl err \<Rightarrow> (Inl err, g4)
            | Inr n \<Rightarrow>
                generate_loop rd R B n e
                  (AList.update (strftime_ymd c)
                     [(''recovery_score'', PyFloat (Finite (round1 rd u1))),
                      (''body_battery'', PyFloat (Finite (round1 rd u2))),
                      (''sleep_hours'', PyFloat (Finite (round1 rd u3))),
                      (''stress_level'', PyInt sl)] dd) g4)"
  using assms by (subst generate_loop.simps) simp

lemma generate_loop_stop:
  "\<not> date_le c e \<Longrightarrow> generate_loop rd R B c e dd g = (Inr dd, g)"
  by (subst generate_loop.simps) simp

lemma update_set:
  "x \<in> set (AList.update k v al) \<Longrightarrow> x \<in> set al \<or> x = (k, v)"
  by (induction al) (auto split: if_splits)

text \<open>Every entry of the result is in the dictionary at the start or built by a round.\<close>

lemma generate_loop_entries:
  assumes "\<And>x y. x \<le> y \<Longrightarrow> rd x \<le> rd y"
    and "rd 0 = 0 \<and> rd 3 = 3 \<and> rd 6 = 6 \<and> rd 9 = 9 \<and> rd 72 = 72 \<and> rd 100 = 100"
    and "\<And>g. 0 \<le> fst (R g) \<and> fst (R g) < 1"
    and "\<And>n g. 0 < n \<Longrightarrow> fst (B n g) < n"
    and "\<And>rs bb sh sl. 0 \<le> rs \<Longrightarrow> rs \<le> 72 \<Longrightarrow> 0 \<le> bb \<Longrightarrow> bb \<le> 100 \<Longrightarrow> 3 \<le> sh \<Longrightarrow> sh \<le> 9
           \<Longrightarrow> 0 \<le> sl \<Longrightarrow> sl \<le> 100
           \<Longrightarrow> P [(''recovery_score'', PyFloat (Finite rs)),
                  (''body_battery'', PyFloat (Finite bb)),
                  (''sleep_hours'', PyFloat (Finite sh)),
                  (''stress_level'', PyInt sl)]"
    and "\<forall>x \<in> set dd. P (snd x)"
    and "fst (generate_loop rd R B c e dd g) = Inr out"
  shows "\<forall>x \<in> set out. P (snd x)"
  using assms
proof (induction rd R B c e dd g rule: generate_loop.induct)
  case (1 rd random randbelow c e dd g)
  note mono = "1.prems"(1) and fx = "1.prems"(2)
  show ?case
  proof (cases "date_le c e")
    case False
    with "1.prems"(6,7) show ?thesis
      by (simp add: generate_loop_stop)
  next
    case True
    obtain u1 g1 where e1: "(u1, g1) = uniform rd random 0 72 g"
      by (cases "uniform rd random 0 72 g") simp
    obtain u2 g2 where e2: "(u2, g2) = uniform rd random 0 100 g1"
      by (cases "uniform rd random 0 100 g1") simp
    obtain u3 g3 where e3: "(u3, g3) = uniform rd random 3 9 g2"
      by (cases "uniform rd random 3 9 g2") simp
    obtain sl g4 where e4: "(sl, g4) = randint randbelow 0 100 g3"
      by (cases "randint randbelow 0 100 g3") simp
    let ?entry = "[(''recovery_score'', PyFloat (Finite (round1 rd u1))),
                   (''body_battery'', PyFloat (Finite (round1 rd u2))),
                   (''sleep_hours'', PyFloat (Finite (round1 rd u3))),
                   (''stress_level'', PyInt sl)]"
    let ?dd = "AList.update (strftime_ymd c) ?entry dd"
    note run = generate_loop_run [OF True e1 [symmetric] e2 [symmetric] e3 [symmetric]
        e4 [symmetric], of dd]
    have b1: "0 \<le> u1 \<and> u1 \<le> 72"
      using uniform_bounds [of rd 72 0 random g, OF mono] fx "1.prems"(3) [of g] e1 [symmetric]
      by simp
    have b2: "0 \<le> u2 \<and> u2 \<le> 100"
      using uniform_bounds [of rd 100 0 random g1, OF mono] fx "1.prems"(3) [of g1]
        e2 [symmetric]
      by simp
    have b3: "3 \<le> u3 \<and> u3 \<le> 9"
      using uniform_bounds [of rd 9 3 random g2, OF mono] fx "1.prems"(3) [of g2] e3 [symmetric]
      by simp
    have b4: "0 \<le> sl \<and> sl \<le> 100"
      using randint_bounds [of randbelow 0 100 g3] "1.prems"(4) e4 [symmetric] by simp
    have r1: "0 \<le> round1 rd u1 \<and> round1 rd u1 \<le> 72"
      using round1_bounds [of rd 0 u1 720, OF mono] b1 fx by simp
    have r2: "0 \<le> round1 rd u2 \<and> round1 rd u2 \<le> 100"
      using round1_bounds [of rd 0 u2 1000, OF mono] b2 fx by simp
    have r3: "3 \<le> round1 rd u3 \<and> round1 rd u3 \<le> 9"
      using round1_bounds [of rd 30 u3 90, OF mono] b3 fx by simp
    have "P ?entry"
      using "1.prems"(5) r1 r2 r3 b4 by blast
    with "1.prems"(6) have inv: "\<forall>x \<in> set ?dd. P (snd x)"
      by (auto dest: update_set)
    show ?thesis
    proof (cases "date_add_day c")
      case (Inl err)
      with run "1.prems"(7) show ?thesis by simp
    next
      case (Inr n)
      with run "1.prems"(7)
      have res: "fst (generate_loop rd random randbelow n e ?dd g4) = Inr out"
        by simp
      from "1.IH" [OF True refl e1 refl refl e2 refl refl e3 refl refl e4 refl refl Inr
          mono fx "1.prems"(3) "1.prems"(4) "1.prems"(5) inv res]
      show ?thesis .
    qed
  qed
qed

text \<open>
  The keys of the result, or the exception, depend on the dates and on the keys at the
  start only, not on the generator and not on the rounding.
\<close>

lemma generate_loop_keys:
  "map fst dd = map fst dd'
   \<Longrightarrow> map_sum id (map fst) (fst (generate_loop rd R B c e dd g))
       = map_sum id (map fst) (fst (generate_loop rd' R' B' c e dd' g'))"
proof (induction rd R B c e dd g arbitrary: dd' g' rule: generate_loop.induct)
  case (1 rd random randbelow c e dd g)
  show ?case
  proof (cases "date_le c e")
    case False
    with "1.prems" show ?thesis
      by (simp add: generate_loop_stop)
  next
    case True
    obtain u1 g1 where e1: "(u1, g1) = uniform rd random 0 72 g"
      by (cases "uniform rd random 0 72 g") simp
    obtain u2 g2 where e2: "(u2, g2) = uniform rd random 0 100 g1"
      by (cases "uniform rd random 0 100 g1") simp
    obtain u3 g3 where e3: "(u3, g3) = uniform rd random 3 9 g2"
      by (cases "uniform rd random 3 9 g2") simp
    obtain sl g4 where e4: "(sl, g4) = randint randbelow 0 100 g3"
      by (cases "randint randbelow 0 100 g3") simp
    obtain v1 h1 where f1: "(v1, h1) = uniform rd' R' 0 72 g'"
      by (cases "uniform rd' R' 0 72 g'") simp
    obtain v2 h2 where f2: "(v2, h2) = uniform rd' R' 0 100 h1"
      by (cases "uniform rd' R' 0 100 h1") simp
    obtain v3 h3 where f3: "(v3, h3) = uniform rd' R' 3 9 h2"
      by (cases "uniform rd' R' 3 9 h2") simp
    obtain tl h4 where f4: "(tl, h4) = randint B' 0 100 h3"
      by (cases "randint B' 0 100 h3") simp
    note run = generate_loop_run [OF True e1 [symmetric] e2 [symmetric] e3 [symmetric]
        e4 [symmetric], of dd]
    note run' = generate_loop_run [OF True f1 [symmetric] f2 [symmetric] f3 [symmetric]
        f4 [symmetric], of dd']
    show ?thesis
    proof (cases "date_add_day c")
      case (Inl err)
      with run run' show ?thesis by simp
    next
      case (Inr n)
      have keys: "map fst (AList.update (strftime_ymd c)
                     [(''recovery_score'', PyFloat (Finite (round1 rd u1))),
                      (''body_battery'', PyFloat (Finite (round1 rd u2))),
                      (''sleep_hours'', PyFloat (Finite (round1 rd u3))),
                      (''stress_level'', PyInt sl)] dd)
                = map fst (AList.update (strftime_ymd c)
                     [(''recovery_score'', PyFloat (Finite (round1 rd' v1))),
                      (''body_battery'', PyFloat (Finite (round1 rd' v2))),
                      (''sleep_hours'', PyFloat (Finite (round1 rd' v3))),
                      (''stress_level'', PyInt tl)] dd')"
        using "1.prems" by (simp add: AList.update_keys)
      from "1.IH" [OF True refl e1 refl refl e2 refl refl e3 refl refl e4 refl refl Inr keys,
          of h4]
      show ?thesis
        using run run' Inr by simp
    qed
  qed
qed

text \<open>
  The keys of a run from 2023-01-01 to 2023-03-01 that starts with the empty dictionary,
  computed with a generator that always draws 0.
\<close>

lemma generate_loop_step_keys:
  "date_le c e \<Longrightarrow> date_add_day c = Inr n \<Longrightarrow>
   map_sum id (map fst)
     (fst (generate_loop (\<lambda>x. x) (\<lambda>u::unit. (0, u)) (\<lambda>n u. (0, u)) c e dd ()))
   = map_sum id (map fst)
     (fst (generate_loop (\<lambda>x. x) (\<lambda>u::unit. (0, u)) (\<lambda>n u. (0, u)) n e
        (AList.update (strftime_ymd c) [] dd) ()))"
  apply (subst generate_loop.simps)
  apply (simp add: uniform_def randint_def)
  apply (rule generate_loop_keys)
  apply (simp add: AList.update_keys)
  done

lemma generate_loop_2023_keys:
  "map_sum id (map fst)
     (fst (generate_loop (\<lambda>x. x) (\<lambda>u::unit. (0, u)) (\<lambda>n u. (0, u))
             (Date 2023 1 1) (Date 2023 3 1) [] ()))
   = Inr (map (\<lambda>d. ''2023-01-'' @ pad2 d) [1..<32] @ map (\<lambda>d. ''2023-02-'' @ pad2 d) [1..<29]
          @ [''2023-03-01''])"
  by (simp add: generate_loop_step_keys generate_loop_stop date_le_def date_add_day_def
        days_in_month_def is_leap_def strftime_ymd_def pad2_def pad4_def digit_char_def
        upt_conv_Cons AList.update_keys)

lemma days_2023_distinct:
  "distinct (map (\<lambda>d. ''2023-01-'' @ pad2 d) [1..<32] @ map (\<lambda>d. ''2023-02-'' @ pad2 d) [1..<29]
          @ [''2023-03-01''])"
  by (simp add: pad2_def digit_char_def upt_conv_Cons)

text \<open>
  Claim C10. Let the generator core keep its contract (\<open>random\<close> in \<open>[0, 1)\<close>,
  \<open>randbelow n\<close> in \<open>[0, n)\<close>) and let the rounding of float arithmetic be monotone and
  leave the floats 0, 3, 6, 9, 72 and 100 as they are. Then
  \<open>generate_five_days_of_garmin_data\<close> returns a dictionary whose keys are the days from
  2023-01-01 through 2023-03-01, each once and in order: 31 days of January, 28 of
  February and the first of March, 60 entries. Every entry has the four metrics, with
  \<open>recovery_score\<close> in \<open>[0, 72]\<close>, \<open>body_battery\<close> in \<open>[0, 100]\<close>, \<open>sleep_hours\<close> in
  \<open>[3, 9]\<close> and \<open>stress_level\<close> an integer from 0 to 100.
\<close>

theorem generate_sixty_days:
  assumes "\<forall>x y. x \<le> y \<longrightarrow> rd x \<le> rd y"
    and "rd 0 = 0 \<and> rd 3 = 3 \<and> rd 6 = 6 \<and> rd 9 = 9 \<and> rd 72 = 72 \<and> rd 100 = 100"
    and "\<forall>g. 0 \<le> fst (random g) \<and> fst (random g) < 1"
    and "\<forall>n g. 0 < n \<longrightarrow> fst (randbelow n g) < n"
  shows "\<exists>dd. fst (generate_five_days_of_garmin_data rd random randbelow g) = Inr dd
           \<and> dict_keys dd = map (\<lambda>d. ''2023-01-'' @ pad2 d) [1..<32]
                              @ map (\<lambda>d. ''2023-02-'' @ pad2 d) [1..<29] @ [''2023-03-01'']
           \<and> distinct (dict_keys dd)
           \<and> length dd = 60
           \<and> (\<forall>x \<in> set dd. \<exists>rs bb sh sl.
                 snd x = [(''recovery_score'', PyFloat (Finite rs)),
                          (''body_battery'', PyFloat (Finite bb)),
                          (''sleep_hours'', PyFloat (Finite sh)),
                          (''stress_level'', PyInt sl)]
                 \<and> 0 \<le> rs \<and> rs \<le> 72 \<and> 0 \<le> bb \<and> bb \<le> 100 \<and> 3 \<le> sh \<and> sh \<le> 9
                 \<and> 0 \<le> sl \<and> sl \<le> 100)"
proof -
  let ?days = "map (\<lambda>d. ''2023-01-'' @ pad2 d) [1..<32]
                 @ map (\<lambda>d. ''2023-02-'' @ pad2 d) [1..<29] @ [''2023-03-01'']"
  let ?run = "generate_loop rd random randbelow (Date 2023 1 1) (Date 2023 3 1) [] g"
  have gen: "generate_five_days_of_garmin_data rd random randbelow g = ?run"
    by (simp add: generate_five_days_of_garmin_data_def)
  have "map_sum id (map fst) (fst ?run) = Inr ?days"
    using generate_loop_keys [of "[]" "[]" rd random randbelow "Date 2023 1 1" "Date 2023 3 1" g
        "\<lambda>x. x" "\<lambda>u::unit. (0, u)" "\<lambda>n u. (0, u)" "()"]
    by (simp only: generate_loop_2023_keys)
  then obtain dd where dd: "fst ?run = Inr dd" and keys: "map fst dd = ?days"
    by (cases "fst ?run") auto
  have len: "length dd = 60"
  proof -
    have "length dd = length (map fst dd)" by simp
    also have "\<dots> = length ?days" by (simp only: keys)
    also have "\<dots> = 60" by simp
    finally show ?thesis .
  qed
  have dist: "distinct (map fst dd)"
    by (simp only: keys days_2023_distinct)
  have m: "\<And>x y. x \<le> y \<Longrightarrow> rd x \<le> rd y"
    using assms(1) by blast
  have r: "\<And>g. 0 \<le> fst (random g) \<and> fst (random g) < 1"
    using assms(3) by blast
  have b: "\<And>n g. 0 < n \<Longrightarrow> fst (randbelow n g) < n"
    using assms(4) by blast
  have entries: "\<forall>x \<in> set dd. \<exists>rs bb sh sl.
                 snd x = [(''recovery_score'', PyFloat (Finite rs)),
                          (''body_battery'', PyFloat (Finite bb)),
                          (''sleep_hours'', PyFloat (Finite sh)),
                          (''stress_level'', PyInt sl)]
                 \<and> 0 \<le> rs \<and> rs \<le> 72 \<and> 0 \<le> bb \<and> bb \<le> 100 \<and> 3 \<le> sh \<and> sh \<le> 9
                 \<and> 0 \<le> sl \<and> sl \<le> 100"
    by (rule generate_loop_entries [of rd random randbelow _ "[]" "Date 2023 1 1"
          "Date 2023 3 1" g dd, OF m assms(2) r b _ _ dd]) auto
  from dd keys len dist entries show ?thesis
    unfolding gen dict_keys_def by blast
qed

text \<open>
  A witness: rounding to multiples of \<open>1 / 1024\<close>, a generator that counts, drawing
  \<open>(g mod 4096) / 4096\<close> and \<open>g mod n\<close>.
\<close>

theorem generate_sixty_days_witness:
  "(\<lambda>x::real. real_of_int \<lfloor>x * 1024 + 1 / 2\<rfloor> / 1024) 72 = 72
   \<and> (\<lambda>x::real. real_of_int \<lfloor>x * 1024 + 1 / 2\<rfloor> / 1024) (1 / 3) = 341 / 1024
   \<and> (\<exists>dd. fst (generate_five_days_of_garmin_data
                  (\<lambda>x::real. real_of_int \<lfloor>x * 1024 + 1 / 2\<rfloor> / 1024)
                  (\<lambda>g::nat. (real (g mod 4096) / 4096, Suc g)) (\<lambda>n g. (g mod n, Suc g)) 0) = Inr dd
          \<and> length dd = 60
          \<and> hd (dict_keys dd) = ''2023-01-01'' \<and> last (dict_keys dd) = ''2023-03-01'')"
proof -
  let ?rd = "\<lambda>x::real. real_of_int \<lfloor>x * 1024 + 1 / 2\<rfloor> / 1024"
  have h0: "\<forall>x y. x \<le> y \<longrightarrow> ?rd x \<le> ?rd y"
  proof (intro allI impI)
    fix x y :: real
    assume "x \<le> y"
    then have "\<lfloor>x * 1024 + 1 / 2\<rfloor> \<le> \<lfloor>y * 1024 + 1 / 2\<rfloor>"
      by (intro floor_mono) simp
    then show "?rd x \<le> ?rd y"
      by (simp add: divide_le_cancel)
  qed
  have fl: "\<And>k::int. \<lfloor>of_int k + (1 / 2 :: real)\<rfloor> = k"
    by linarith
  have h1: "?rd 0 = 0 \<and> ?rd 3 = 3 \<and> ?rd 6 = 6 \<and> ?rd 9 = 9 \<and> ?rd 72 = 72 \<and> ?rd 100 = 100"
    using fl [of 0] fl [of 3072] fl [of 6144] fl [of 9216] fl [of 73728] fl [of 102400]
    by simp
  have third: "?rd (1 / 3) = 341 / 1024"
  proof -
    have "\<lfloor>(1 / 3 :: real) * 1024 + 1 / 2\<rfloor> = 341" by linarith
    then show ?thesis by simp
  qed
  have h2: "\<forall>g::nat. 0 \<le> fst (real (g mod 4096) / 4096, Suc g)
              \<and> fst (real (g mod 4096) / 4096, Suc g) < 1"
  proof
    fix g :: nat
    have "g mod 4096 < 4096" by simp
    then have "real (g mod 4096) < 4096" by linarith
    then show "0 \<le> fst (real (g mod 4096) / 4096, Suc g)
                 \<and> fst (real (g mod 4096) / 4096, Suc g) < 1"
      by simp
  qed
  have h3: "\<forall>n (g::nat). 0 < n \<longrightarrow> fst (g mod n, Suc g) < n"
    by simp
  from generate_sixty_days [of ?rd "\<lambda>g::nat. (real (g mod 4096) / 4096, Suc g)"
      "\<lambda>n g. (g mod n, Suc g)" 0, OF h0 h1 h2 h3]
  obtain dd where
    dd: "fst (generate_five_days_of_garmin_data ?rd
                (\<lambda>g::nat. (real (g mod 4096) / 4096, Suc g)) (\<lambda>n g. (g mod n, Suc g)) 0) = Inr dd"
    and keys: "dict_keys dd = map (\<lambda>d. ''2023-01-'' @ pad2 d) [1..<32]
                              @ map (\<lambda>d. ''2023-02-'' @ pad2 d) [1..<29] @ [''2023-03-01'']"
    and len: "length dd = 60"
    by blast
  have "hd (dict_keys dd) = ''2023-01-01''"
    by (simp only: keys) (simp add: pad2_def digit_char_def upt_conv_Cons)
  moreover have "last (dict_keys dd) = ''2023-03-01''"
    by (simp only: keys) simp
  ultimately show ?thesis
    using h1 third dd len by blast
qed

end
